theory Spec2Isabelle
  imports Complex_Main "HOL-Library.Sublist"
begin

section \<open>Values of the dashboard: exceptions, tables, effects\<close>

text \<open>
  A Python exception object, as far as \<^verbatim>\<open>app/main.py\<close> looks at it: every handler
  of the file is \<^verbatim>\<open>except Exception as e\<close>, which catches the instances of
  \<^verbatim>\<open>Exception\<close> and lets every other \<^verbatim>\<open>BaseException\<close>
  (\<^verbatim>\<open>KeyboardInterrupt\<close>, \<^verbatim>\<open>SystemExit\<close>) pass, and every handler formats the
  exception with \<^verbatim>\<open>{e}\<close>, that is \<^verbatim>\<open>str(e)\<close>.
\<close>

datatype py_exn = PyExn (derives_Exception: bool) (str_of: string)

text \<open>
  A cell of a table and a \<^verbatim>\<open>pandas.DataFrame\<close>: the column labels in order and the rows,
  each row holding one cell per column. \<^verbatim>\<open>pd.DataFrame()\<close> has no column and no row.
\<close>

datatype cell = NaN | Num real | Str string

record DataFrame =
  columns :: "string list"
  rows :: "cell list list"

definition empty_DataFrame :: DataFrame where
  "empty_DataFrame = \<lparr>columns = [], rows = []\<rparr>"

definition n_rows :: "DataFrame \<Rightarrow> nat" where
  "n_rows df = length (rows df)"

definition n_columns :: "DataFrame \<Rightarrow> nat" where
  "n_columns df = length (columns df)"

text \<open>
  The functions \<^verbatim>\<open>main.py\<close> calls and does not define: the chart helpers and
  \<^verbatim>\<open>detect_outliers\<close> it imports, and the seaborn box plot of lines 122 to 125.
\<close>

datatype helper =
    Correlation_heatmap
  | Time_series
  | Wind_rose
  | Wind_direction_distribution
  | Detect_outliers
  | Boxplot
  | Temperature_vs_humidity
  | Temperature_trends
  | Pair_plot

text \<open>
  What a run does to the outside, in order: the Streamlit elements it writes, the
  calls it makes to the helpers (with the table each one is given), the tables it
  hands to \<^verbatim>\<open>clean_dataset\<close> together with the path to write, and, for
  \<^verbatim>\<open>app/utils.py\<close>, the calls on the archive and the line printed.
\<close>

datatype event =
    St_title string
  | St_header string
  | St_subheader string
  | St_write string
  | St_error string
  | St_write_describe DataFrame
  | St_write_isnull_sum DataFrame
  | St_write_duplicated_sum DataFrame
  | St_tabs "string list"
  | Called helper DataFrame
  | Called_clean_dataset DataFrame string
  | Zip_extractall "(string \<times> string) list" string
  | Zip_close
  | Print string

text \<open>
  A piece of the program: it ends with a value or with a raised exception, and it
  has emitted a list of events by then.
\<close>

type_synonym 'a prog = "(py_exn + 'a) \<times> event list"

definition result :: "'a \<Rightarrow> 'a prog" where
  "result x = (Inr x, [])"

definition emit :: "event \<Rightarrow> unit prog" where
  "emit ev = (Inr (), [ev])"

definition and_then :: "'a prog \<Rightarrow> ('a \<Rightarrow> 'b prog) \<Rightarrow> 'b prog" where
  "and_then m k =
     (case m of
        (Inl e, out) \<Rightarrow> (Inl e, out)
      | (Inr x, out) \<Rightarrow> (case k x of (r, out') \<Rightarrow> (r, out @ out')))"

definition next_do :: "unit prog \<Rightarrow> 'b prog \<Rightarrow> 'b prog" where
  "next_do m k = and_then m (\<lambda>_. k)"

text \<open>\<^verbatim>\<open>try: body  except Exception as e: handler\<close>\<close>

definition try_except :: "'a prog \<Rightarrow> (py_exn \<Rightarrow> 'a prog) \<Rightarrow> 'a prog" where
  "try_except body handler =
     (case body of
        (Inr x, out) \<Rightarrow> (Inr x, out)
      | (Inl e, out) \<Rightarrow>
          if derives_Exception e
          then (case handler e of (r, out') \<Rightarrow> (r, out @ out'))
          else (Inl e, out))"

text \<open>\<^verbatim>\<open>if cond: body\<close>\<close>

definition when_do :: "bool \<Rightarrow> unit prog \<Rightarrow> unit prog" where
  "when_do cond body = (if cond then body else result ())"

section \<open>The external collaborators\<close>

text \<open>
  \<^verbatim>\<open>pandas.read_csv\<close>, the functions imported from \<^verbatim>\<open>utils\<close> whose definitions are
  not in \<^verbatim>\<open>app/utils.py\<close>, and the pandas summaries of the EDA tab are parameters of
  the model: each is given by its outcome (a value, or the exception it raises).
  The helpers are taken to read the table they are given and leave it as it is.
\<close>

record env =
  read_csv :: "string \<Rightarrow> py_exn + DataFrame"
  clean_dataset :: "DataFrame \<Rightarrow> string \<Rightarrow> py_exn + DataFrame"
  describe :: "DataFrame \<Rightarrow> py_exn option"
  isnull_sum :: "DataFrame \<Rightarrow> py_exn option"
  duplicated_sum :: "DataFrame \<Rightarrow> py_exn option"
  plot :: "helper \<Rightarrow> DataFrame \<Rightarrow> py_exn option"
  detect_outliers :: "DataFrame \<Rightarrow> string list \<Rightarrow> py_exn + nat list"

definition external :: "py_exn + 'a \<Rightarrow> 'a prog" where
  "external r = (r, [])"

definition raising :: "py_exn option \<Rightarrow> unit prog" where
  "raising r = (case r of None \<Rightarrow> (Inr (), []) | Some e \<Rightarrow> (Inl e, []))"

section \<open>\<^verbatim>\<open>load_data\<close> (main.py, lines 22 to 28)\<close>

text \<open>
  \<^verbatim>\<open>st.cache_data\<close> memoises \<^verbatim>\<open>load_data\<close> and \<^verbatim>\<open>load_and_clean_all_datasets\<close>
  across the reruns of the script; the model is one run that starts with nothing
  cached, where each body is executed.
\<close>

definition load_data :: "env \<Rightarrow> string \<Rightarrow> DataFrame prog" where
  "load_data E data_path =
     try_except
       (external (read_csv E data_path))
       (\<lambda>e. next_do
          (emit (St_error (''Failed to load data from '' @ data_path @ '': '' @ str_of e)))
          (result empty_DataFrame))"

section \<open>Strings and paths\<close>

text \<open>
  \<^verbatim>\<open>str.lower\<close> on the letters A to Z (the keys of \<^verbatim>\<open>DATASETS\<close> are ASCII),
  \<^verbatim>\<open>str.replace\<close> for a one-character pattern and replacement, and
  \<^verbatim>\<open>os.path.join\<close> of two components as \<^verbatim>\<open>posixpath\<close> defines it: a second
  component that starts with a slash replaces the first, a first component that is
  empty or ends with a slash takes no separator.
\<close>

definition lower_char :: "char \<Rightarrow> char" where
  "lower_char c =
     (if 65 \<le> (of_char c :: nat) \<and> (of_char c :: nat) \<le> 90
      then char_of ((of_char c :: nat) + 32) else c)"

definition lower :: "string \<Rightarrow> string" where
  "lower s = map lower_char s"

definition replace_char :: "char \<Rightarrow> char \<Rightarrow> string \<Rightarrow> string" where
  "replace_char old new s = map (\<lambda>c. if c = old then new else c) s"

definition startswith_sep :: "string \<Rightarrow> bool" where
  "startswith_sep s = (case s of [] \<Rightarrow> False | c # _ \<Rightarrow> c = CHR ''/'')"

definition endswith_sep :: "string \<Rightarrow> bool" where
  "endswith_sep s = (case rev s of [] \<Rightarrow> False | c # _ \<Rightarrow> c = CHR ''/'')"

definition path_join :: "string \<Rightarrow> string \<Rightarrow> string" where
  "path_join a b =
     (if startswith_sep b then b
      else if a = [] \<or> endswith_sep a then a @ b
      else a @ ''/'' @ b)"

text \<open>\<^verbatim>\<open>str(n)\<close> for a length: the decimal digits.\<close>

function str_nat :: "nat \<Rightarrow> string" where
  "str_nat n =
     (if n < 10 then [char_of (48 + n)]
      else str_nat (n div 10) @ [char_of (48 + n mod 10)])"
  by pat_completeness auto
termination
  by (relation "measure (\<lambda>n. n)") auto

declare str_nat.simps [simp del]

section \<open>The constants of main.py (lines 10 to 17)\<close>

definition DATA_FOLDER :: string where
  "DATA_FOLDER = ''data/original_datasets/''"

definition CLEANED_FOLDER :: string where
  "CLEANED_FOLDER = ''data/cleaned_datasets/''"

definition DATASETS :: "(string \<times> string) list" where
  "DATASETS =
     [(''Benin Malanville'', path_join DATA_FOLDER ''benin-malanville.csv''),
      (''Sierra Leone Bumbuna'', path_join DATA_FOLDER ''sierraleone-bumbuna.csv''),
      (''Togo Dapaong QC'', path_join DATA_FOLDER ''togo-dapaong_qc.csv'')]"

section \<open>\<^verbatim>\<open>load_and_clean_all_datasets\<close> (main.py, lines 32 to 41)\<close>

text \<open>The path of line 39.\<close>

definition cleaned_path :: "string \<Rightarrow> string" where
  "cleaned_path name =
     path_join CLEANED_FOLDER
       (replace_char (CHR '' '') (CHR ''_'') (lower name) @ ''_cleaned.csv'')"

definition call_clean_dataset :: "env \<Rightarrow> DataFrame \<Rightarrow> string \<Rightarrow> DataFrame prog" where
  "call_clean_dataset E raw_data output_path =
     next_do (emit (Called_clean_dataset raw_data output_path))
       (external (clean_dataset E raw_data output_path))"

text \<open>
  The loop over \<^verbatim>\<open>DATASETS.items()\<close>, in the order of the dictionary, with the two
  dictionaries it fills.
\<close>

fun load_and_clean_loop ::
  "env \<Rightarrow> (string \<times> string) list \<Rightarrow> (string \<rightharpoonup> DataFrame) \<Rightarrow> (string \<rightharpoonup> DataFrame) \<Rightarrow>
     ((string \<rightharpoonup> DataFrame) \<times> (string \<rightharpoonup> DataFrame)) prog" where
  "load_and_clean_loop E [] cleaned_data uncleaned_data =
     result (cleaned_data, uncleaned_data)"
| "load_and_clean_loop E ((name, path) # items) cleaned_data uncleaned_data =
     and_then (load_data E path) (\<lambda>raw_data.
       and_then (call_clean_dataset E raw_data (cleaned_path name)) (\<lambda>cleaned.
         load_and_clean_loop E items
           (cleaned_data(name \<mapsto> cleaned)) (uncleaned_data(name \<mapsto> raw_data))))"

definition load_and_clean_all_datasets ::
  "env \<Rightarrow> ((string \<rightharpoonup> DataFrame) \<times> (string \<rightharpoonup> DataFrame)) prog" where
  "load_and_clean_all_datasets E = load_and_clean_loop E DATASETS Map.empty Map.empty"

section \<open>The tabs of main.py (lines 58 to 154)\<close>

text \<open>
  \<^verbatim>\<open>col in selected_dataset.columns\<close> and \<^verbatim>\<open>{...}.issubset(selected_dataset.columns)\<close>.
\<close>

definition has_column :: "DataFrame \<Rightarrow> string \<Rightarrow> bool" where
  "has_column df col = (col \<in> set (columns df))"

definition has_all_columns :: "DataFrame \<Rightarrow> string list \<Rightarrow> bool" where
  "has_all_columns df cols = list_all (has_column df) cols"

text \<open>
  \<^verbatim>\<open>selected_dataset[cols]\<close>: a new table of the listed columns, raising
  \<^verbatim>\<open>KeyError\<close> when one of them is not a column of the table.
\<close>

definition cell_of :: "string list \<Rightarrow> cell list \<Rightarrow> string \<Rightarrow> cell" where
  "cell_of cols row col = (case map_of (zip cols row) col of Some v \<Rightarrow> v | None \<Rightarrow> NaN)"

definition select_columns :: "DataFrame \<Rightarrow> string list \<Rightarrow> DataFrame" where
  "select_columns df cols =
     \<lparr>columns = cols, rows = map (\<lambda>row. map (cell_of (columns df) row) cols) (rows df)\<rparr>"

definition getitem_columns :: "DataFrame \<Rightarrow> string list \<Rightarrow> DataFrame prog" where
  "getitem_columns df cols =
     (if has_all_columns df cols then result (select_columns df cols)
      else (Inl (PyExn True (''None of '' @ concat cols @ '' are in the columns'')), []))"

text \<open>A call of a helper: the call is recorded, then the helper returns or raises.\<close>

definition call_plot :: "env \<Rightarrow> helper \<Rightarrow> DataFrame \<Rightarrow> unit prog" where
  "call_plot E h df = next_do (emit (Called h df)) (raising (plot E h df))"

definition call_detect_outliers :: "env \<Rightarrow> DataFrame \<Rightarrow> string list \<Rightarrow> nat list prog" where
  "call_detect_outliers E df cols =
     next_do (emit (Called Detect_outliers df)) (external (detect_outliers E df cols))"

definition tab_overview :: "string \<Rightarrow> unit prog" where
  "tab_overview selected_dataset_name =
     next_do (emit (St_header ''Overview''))
       (emit (St_write
          ([CHR 0x0A] @ ''    This dashboard provides a detailed analysis of the ''
           @ selected_dataset_name @ '' dataset.'' @ [CHR 0x0A]
           @ ''    Navigate to different sections to explore data insights, trends, and advanced analysis.''
           @ [CHR 0x0A] @ ''    '')))"

definition tab_eda :: "env \<Rightarrow> DataFrame \<Rightarrow> unit prog" where
  "tab_eda E selected_dataset =
     next_do (emit (St_header ''Exploratory Data Analysis''))
    (next_do (emit (St_write ''**Data Summary:**''))
    (next_do (raising (describe E selected_dataset))
    (next_do (emit (St_write_describe selected_dataset))
    (next_do (emit (St_write ''**Missing Values:**''))
    (next_do (raising (isnull_sum E selected_dataset))
    (next_do (emit (St_write_isnull_sum selected_dataset))
    (next_do (emit (St_write ''**Duplicates:**''))
    (next_do (raising (duplicated_sum E selected_dataset))
             (emit (St_write_duplicated_sum selected_dataset))))))))))"

text \<open>Lines 79 to 84.\<close>

definition correlation_heatmap_section :: "env \<Rightarrow> DataFrame \<Rightarrow> unit prog" where
  "correlation_heatmap_section E selected_dataset =
     next_do (emit (St_subheader ''Correlation Heatmap''))
       (try_except (call_plot E Correlation_heatmap selected_dataset)
          (\<lambda>e. emit (St_error (''Error plotting correlation heatmap: '' @ str_of e))))"

text \<open>Lines 86 to 92.\<close>

definition time_series_section :: "env \<Rightarrow> DataFrame \<Rightarrow> unit prog" where
  "time_series_section E selected_dataset =
     when_do (has_column selected_dataset ''Timestamp'')
       (next_do (emit (St_subheader ''Time Series Trends''))
          (try_except (call_plot E Time_series selected_dataset)
             (\<lambda>e. emit (St_error (''Error plotting time series trends: '' @ str_of e)))))"

text \<open>Lines 94 to 100.\<close>

definition wind_rose_section :: "env \<Rightarrow> DataFrame \<Rightarrow> unit prog" where
  "wind_rose_section E selected_dataset =
     when_do (set [''WD'', ''WS''] \<subseteq> set (columns selected_dataset))
       (next_do (emit (St_subheader ''Wind Rose''))
          (try_except (call_plot E Wind_rose selected_dataset)
             (\<lambda>e. emit (St_error (''Error plotting wind rose: '' @ str_of e)))))"

text \<open>Lines 102 to 108.\<close>

definition wind_direction_section :: "env \<Rightarrow> DataFrame \<Rightarrow> unit prog" where
  "wind_direction_section E selected_dataset =
     when_do (has_column selected_dataset ''WD'')
       (next_do (emit (St_subheader ''Wind Direction Distribution''))
          (try_except (call_plot E Wind_direction_distribution selected_dataset)
             (\<lambda>e. emit (St_error (''Error plotting wind direction distribution: '' @ str_of e)))))"

definition tab_visuals :: "env \<Rightarrow> DataFrame \<Rightarrow> unit prog" where
  "tab_visuals E selected_dataset =
     next_do (emit (St_header ''Data Visualizations''))
    (next_do (correlation_heatmap_section E selected_dataset)
    (next_do (time_series_section E selected_dataset)
    (next_do (wind_rose_section E selected_dataset)
             (wind_direction_section E selected_dataset))))"

text \<open>
  Lines 114 to 127. The sub-header is written before the columns are looked for; the
  figure of lines 122 to 125 is the one helper \<open>Boxplot\<close>.
\<close>

definition outlier_columns :: "string list" where
  "outlier_columns = [''GHI'', ''DNI'', ''DHI'']"

definition outlier_section :: "env \<Rightarrow> DataFrame \<Rightarrow> unit prog" where
  "outlier_section E selected_dataset =
     next_do (emit (St_subheader ''Outlier Detection''))
       (when_do (has_all_columns selected_dataset outlier_columns)
          (try_except
             (and_then (getitem_columns selected_dataset outlier_columns) (\<lambda>valid_data.
                and_then (call_detect_outliers E valid_data outlier_columns) (\<lambda>outliers.
                  next_do
                    (emit (St_write (''Number of outliers detected: '' @ str_nat (length outliers))))
                    (call_plot E Boxplot valid_data))))
             (\<lambda>e. emit (St_error (''Error detecting outliers: '' @ str_of e)))))"

text \<open>Lines 129 to 135.\<close>

definition temperature_humidity_section :: "env \<Rightarrow> DataFrame \<Rightarrow> unit prog" where
  "temperature_humidity_section E selected_dataset =
     when_do (set [''Tamb'', ''RH''] \<subseteq> set (columns selected_dataset))
       (next_do (emit (St_subheader ''Temperature vs. Relative Humidity''))
          (try_except (call_plot E Temperature_vs_humidity selected_dataset)
             (\<lambda>e. emit (St_error (''Error plotting temperature vs. humidity: '' @ str_of e)))))"

text \<open>Lines 137 to 144.\<close>

definition module_columns :: "string list" where
  "module_columns = [''TModA'', ''TModB'', ''Tamb'']"

definition temperature_trends_section :: "env \<Rightarrow> DataFrame \<Rightarrow> unit prog" where
  "temperature_trends_section E selected_dataset =
     when_do (has_all_columns selected_dataset module_columns)
       (next_do (emit (St_subheader ''Temperature Trends Across Modules''))
          (try_except (call_plot E Temperature_trends selected_dataset)
             (\<lambda>e. emit (St_error (''Error plotting temperature trends: '' @ str_of e)))))"

text \<open>Lines 146 to 154: the plot is drawn when the list of available columns is not empty.\<close>

definition analysis_columns :: "string list" where
  "analysis_columns = [''GHI'', ''DNI'', ''DHI'', ''Tamb'', ''RH'', ''WS'']"

definition available_columns :: "DataFrame \<Rightarrow> string list" where
  "available_columns df = filter (has_column df) analysis_columns"

definition pair_plot_section :: "env \<Rightarrow> DataFrame \<Rightarrow> unit prog" where
  "pair_plot_section E selected_dataset =
     when_do (available_columns selected_dataset \<noteq> [])
       (next_do (emit (St_subheader ''Pair Plot of Key Variables''))
          (try_except (call_plot E Pair_plot selected_dataset)
             (\<lambda>e. emit (St_error (''Error plotting pair plot: '' @ str_of e)))))"

definition tab_advanced :: "env \<Rightarrow> DataFrame \<Rightarrow> unit prog" where
  "tab_advanced E selected_dataset =
     next_do (emit (St_header ''Advanced Analysis''))
    (next_do (outlier_section E selected_dataset)
    (next_do (temperature_humidity_section E selected_dataset)
    (next_do (temperature_trends_section E selected_dataset)
             (pair_plot_section E selected_dataset))))"

section \<open>The main workflow (main.py, lines 44 to 56)\<close>

text \<open>
  The name chosen in the side bar is the argument; \<^verbatim>\<open>all_uncleaned_data.get\<close> falls
  back to the empty table.
\<close>

definition dashboard :: "env \<Rightarrow> string \<Rightarrow> unit prog" where
  "dashboard E selected_dataset_name =
     and_then (load_and_clean_all_datasets E) (\<lambda>(all_cleaned_data, all_uncleaned_data).
       let selected_dataset =
             (case all_uncleaned_data selected_dataset_name of
                Some df \<Rightarrow> df | None \<Rightarrow> empty_DataFrame)
       in next_do (emit (St_title (''Solar Farm Data Analysis Dashboard for '' @ selected_dataset_name)))
         (next_do (emit (St_tabs [''Overview'', ''EDA'', ''Visualizations'', ''Advanced Analysis'']))
         (next_do (tab_overview selected_dataset_name)
         (next_do (tab_eda E selected_dataset)
         (next_do (tab_visuals E selected_dataset)
                  (tab_advanced E selected_dataset))))))"

section \<open>\<^verbatim>\<open>extract_datasets\<close> (utils.py, lines 3 to 7)\<close>

text \<open>
  \<^verbatim>\<open>zipfile.ZipFile(path, 'r')\<close> gives the archive (its members, name and content) or
  raises; \<^verbatim>\<open>extractall\<close>, called with the destination and no list of members, writes
  every member or raises. Leaving the \<^verbatim>\<open>with\<close> block closes the archive and lets an
  exception of the block pass.
\<close>

record zip_env =
  ZipFile :: "string \<Rightarrow> py_exn + (string \<times> string) list"
  extractall :: "(string \<times> string) list \<Rightarrow> string \<Rightarrow> py_exn option"

definition with_close :: "'a prog \<Rightarrow> 'a prog" where
  "with_close body = (case body of (r, out) \<Rightarrow> (r, out @ [Zip_close]))"

definition extract_datasets :: "zip_env \<Rightarrow> string \<Rightarrow> string \<Rightarrow> unit prog" where
  "extract_datasets Z input_data_path output_data_path =
     and_then (external (ZipFile Z input_data_path)) (\<lambda>zip.
       with_close
         (next_do (emit (Zip_extractall zip output_data_path))
         (next_do (raising (extractall Z zip output_data_path))
                  (emit (Print (''Extracted '' @ input_data_path @ '' to '' @ output_data_path))))))"

section \<open>The sections by helper\<close>

text \<open>
  What main.py asks of the columns before it calls each helper (lines 82, 87, 95, 103,
  117, 130, 139 and 149; the box plot is drawn in the block of \<^verbatim>\<open>detect_outliers\<close>),
  the text its handler puts before the exception (lines 84, 92, 100, 108, 127, 135, 144
  and 154), the table it passes, and the exception the helper raises on a table.
\<close>

fun requirement_met :: "helper \<Rightarrow> DataFrame \<Rightarrow> bool" where
  "requirement_met Correlation_heatmap df = True"
| "requirement_met Time_series df = has_column df ''Timestamp''"
| "requirement_met Wind_rose df = (set [''WD'', ''WS''] \<subseteq> set (columns df))"
| "requirement_met Wind_direction_distribution df = has_column df ''WD''"
| "requirement_met Detect_outliers df = has_all_columns df [''GHI'', ''DNI'', ''DHI'']"
| "requirement_met Boxplot df = has_all_columns df [''GHI'', ''DNI'', ''DHI'']"
| "requirement_met Temperature_vs_humidity df = (set [''Tamb'', ''RH''] \<subseteq> set (columns df))"
| "requirement_met Temperature_trends df = has_all_columns df [''TModA'', ''TModB'', ''Tamb'']"
| "requirement_met Pair_plot df =
     (filter (has_column df) [''GHI'', ''DNI'', ''DHI'', ''Tamb'', ''RH'', ''WS''] \<noteq> [])"

fun error_prefix :: "helper \<Rightarrow> string" where
  "error_prefix Correlation_heatmap = ''Error plotting correlation heatmap: ''"
| "error_prefix Time_series = ''Error plotting time series trends: ''"
| "error_prefix Wind_rose = ''Error plotting wind rose: ''"
| "error_prefix Wind_direction_distribution = ''Error plotting wind direction distribution: ''"
| "error_prefix Detect_outliers = ''Error detecting outliers: ''"
| "error_prefix Boxplot = ''Error detecting outliers: ''"
| "error_prefix Temperature_vs_humidity = ''Error plotting temperature vs. humidity: ''"
| "error_prefix Temperature_trends = ''Error plotting temperature trends: ''"
| "error_prefix Pair_plot = ''Error plotting pair plot: ''"

fun argument :: "helper \<Rightarrow> DataFrame \<Rightarrow> DataFrame" where
  "argument Detect_outliers df = select_columns df [''GHI'', ''DNI'', ''DHI'']"
| "argument Boxplot df = select_columns df [''GHI'', ''DNI'', ''DHI'']"
| "argument h df = df"

fun raised :: "env \<Rightarrow> helper \<Rightarrow> DataFrame \<Rightarrow> py_exn option" where
  "raised E Detect_outliers t =
     (case detect_outliers E t [''GHI'', ''DNI'', ''DHI''] of Inl e \<Rightarrow> Some e | Inr _ \<Rightarrow> None)"
| "raised E h t = plot E h t"

text \<open>The error element of a handler, when there is an exception to show.\<close>

definition error_shown :: "string \<Rightarrow> py_exn option \<Rightarrow> event list" where
  "error_shown p r = (case r of None \<Rightarrow> [] | Some e \<Rightarrow> [St_error (p @ str_of e)])"

text \<open>
  What a section writes when each exception it meets is an error, and the events that
  can come from the section of a helper.
\<close>

definition plot_section_events :: "env \<Rightarrow> helper \<Rightarrow> string \<Rightarrow> DataFrame \<Rightarrow> event list" where
  "plot_section_events E h title df =
     (if requirement_met h df
      then St_subheader title # Called h df # error_shown (error_prefix h) (plot E h df)
      else [])"

definition outlier_section_events :: "env \<Rightarrow> DataFrame \<Rightarrow> event list" where
  "outlier_section_events E df =
     St_subheader ''Outlier Detection'' #
     (if requirement_met Detect_outliers df
      then Called Detect_outliers (argument Detect_outliers df) #
           (case detect_outliers E (argument Detect_outliers df) outlier_columns of
              Inl e \<Rightarrow> [St_error (error_prefix Detect_outliers @ str_of e)]
            | Inr outliers \<Rightarrow>
                St_write (''Number of outliers detected: '' @ str_nat (length outliers)) #
                Called Boxplot (argument Boxplot df) #
                error_shown (error_prefix Boxplot) (plot E Boxplot (argument Boxplot df)))
      else [])"

definition of_section :: "helper \<Rightarrow> DataFrame \<Rightarrow> event \<Rightarrow> bool" where
  "of_section h df ev =
     ((\<exists>t. ev = St_subheader t) \<or> (\<exists>t. ev = St_write t) \<or>
      requirement_met h df \<and>
        (ev = Called h (argument h df) \<or> (\<exists>s. ev = St_error (error_prefix h @ s))))"

section \<open>Tables in the events\<close>


definition loaded :: "env \<Rightarrow> string \<Rightarrow> DataFrame" where
  "loaded E path = (case fst (load_data E path) of Inr t \<Rightarrow> t | Inl e \<Rightarrow> empty_DataFrame)"

definition raw_dataset :: "env \<Rightarrow> string \<Rightarrow> DataFrame" where
  "raw_dataset E name =
     (case map_of DATASETS name of Some path \<Rightarrow> loaded E path | None \<Rightarrow> empty_DataFrame)"

section \<open>The outlier detector of the specification\<close>

text \<open>
  Modelled from the spec: the values of one column, as the detector and the cleaner of the specification read them.
\<close>

definition column_values :: "DataFrame \<Rightarrow> string \<Rightarrow> cell list" where
  "column_values df c = map (\<lambda>row. cell_of (columns df) row c) (rows df)"

text \<open>
  Modelled from the spec: the number in a cell of a numeric column (section 4.3: the columns must be numeric).
\<close>

fun number_of :: "cell \<Rightarrow> real option" where
  "number_of (Num r) = Some r"
| "number_of v = None"

text \<open>
  Modelled from the spec: a column of the table all of whose cells are numbers.
\<close>

definition is_numeric_column :: "DataFrame \<Rightarrow> string \<Rightarrow> bool" where
  "is_numeric_column df c =
     (c \<in> set (columns df) \<and> list_all (\<lambda>v. number_of v \<noteq> None) (column_values df c))"

text \<open>
  Modelled from the spec: the numbers of a column, row by row.
\<close>

definition numbers :: "DataFrame \<Rightarrow> string \<Rightarrow> real list" where
  "numbers df c = List.map_filter number_of (column_values df c)"

text \<open>
  Modelled from the spec: the column mean of the standardised deviation.
\<close>

definition mean :: "real list \<Rightarrow> real" where
  "mean xs = sum_list xs / real (length xs)"

text \<open>
  Modelled from the spec: the dispersion of a column, its standard deviation.
\<close>

definition std :: "real list \<Rightarrow> real" where
  "std xs = sqrt (sum_list (map (\<lambda>x. (x - mean xs)\<^sup>2) xs) / real (length xs))"

text \<open>
  Modelled from the spec: the score of a value, its standardised deviation from the column mean, undefined on a column with no variance.
\<close>

definition zscore :: "real list \<Rightarrow> real \<Rightarrow> real option" where
  "zscore xs x = (if std xs = 0 then None else Some (\<bar>x - mean xs\<bar> / std xs))"

text \<open>
  Modelled from the spec: a score exceeds the fixed threshold; an undefined score never does.
\<close>

definition exceeds :: "real \<Rightarrow> real option \<Rightarrow> bool" where
  "exceeds threshold score = (case score of None \<Rightarrow> False | Some z \<Rightarrow> threshold < z)"

text \<open>
  Modelled from the spec: per row, whether the score on one column exceeds the threshold.
\<close>

definition column_flags :: "real \<Rightarrow> DataFrame \<Rightarrow> string \<Rightarrow> bool list" where
  "column_flags threshold df c =
     map (\<lambda>x. exceeds threshold (zscore (numbers df c) x)) (numbers df c)"

text \<open>
  Modelled from the spec: a row is an outlier if any, or if all, of its scores exceed the threshold; the spec leaves the choice to be fixed.
\<close>

datatype flag_rule = Any_column | All_columns

text \<open>
  Modelled from the spec: the rule applied to one row.
\<close>

definition row_flagged :: "flag_rule \<Rightarrow> real \<Rightarrow> DataFrame \<Rightarrow> string list \<Rightarrow> nat \<Rightarrow> bool" where
  "row_flagged rule threshold df cols i =
     (case rule of
        Any_column \<Rightarrow> list_ex (\<lambda>c. column_flags threshold df c ! i) cols
      | All_columns \<Rightarrow> list_all (\<lambda>c. column_flags threshold df c ! i) cols)"

text \<open>
  Modelled from the spec: \<^verbatim>\<open>detect_outliers\<close>, which main.py imports from \<^verbatim>\<open>utils\<close>
  and \<^verbatim>\<open>app/utils.py\<close> does not define. Section 4.3: given a table and column names
  that must be numeric, it returns the rows flagged by the rule; the threshold and the
  rule are parameters, the score is the z-score that line 114 of main.py names.
\<close>

definition detect_outliers_spec ::
  "flag_rule \<Rightarrow> real \<Rightarrow> DataFrame \<Rightarrow> string list \<Rightarrow> py_exn + nat list" where
  "detect_outliers_spec rule threshold df cols =
     (if list_all (is_numeric_column df) cols
      then Inr (filter (row_flagged rule threshold df cols) [0..<n_rows df])
      else Inl (PyExn True ''columns must be numeric''))"

text \<open>
  Modelled from the spec: a column with the same value in every row.
\<close>

definition constant_column :: "DataFrame \<Rightarrow> string \<Rightarrow> bool" where
  "constant_column df c =
     (case numbers df c of [] \<Rightarrow> True | x # xs \<Rightarrow> list_all (\<lambda>y. y = x) xs)"

section \<open>The cleaner of the specification\<close>

text \<open>
  Modelled from the spec: the handling of missing values, drop or impute (section 4.2 leaves the choice to the implementer).
\<close>

datatype missing_strategy = Drop_rows | Fill_with real

text \<open>
  Modelled from the spec: what section 4.2 leaves open: how a time stamp is
  parsed and a cell coerced to a number (a cell that cannot be becomes missing), which
  columns are numeric, and the strategy for missing values.
\<close>

record cleaning_rules =
  parse_timestamp :: "cell \<Rightarrow> cell"
  to_numeric :: "cell \<Rightarrow> cell"
  numeric_columns :: "string list"
  strategy :: missing_strategy

text \<open>
  Modelled from the spec: a table is rectangular, each row has one cell per column.
\<close>

definition well_formed :: "DataFrame \<Rightarrow> bool" where
  "well_formed df = list_all (\<lambda>row. length row = length (columns df)) (rows df)"

text \<open>
  Modelled from the spec: a function applied to the cells of one column.
\<close>

definition apply_to_column :: "(cell \<Rightarrow> cell) \<Rightarrow> string \<Rightarrow> DataFrame \<Rightarrow> DataFrame" where
  "apply_to_column f c df =
     df\<lparr>rows := map (\<lambda>row. map (\<lambda>(col, v). if col = c then f v else v) (zip (columns df) row))
                    (rows df)\<rparr>"

text \<open>
  Modelled from the spec: \<^emph>\<open>normalize/parse a timestamp column if present\<close>.
\<close>

definition normalize_timestamp :: "cleaning_rules \<Rightarrow> DataFrame \<Rightarrow> DataFrame" where
  "normalize_timestamp R df =
     (if has_column df ''Timestamp'' then apply_to_column (parse_timestamp R) ''Timestamp'' df
      else df)"

text \<open>
  Modelled from the spec: \<^emph>\<open>coerce numeric columns to a consistent numeric type\<close>.
\<close>

definition coerce_numeric :: "cleaning_rules \<Rightarrow> DataFrame \<Rightarrow> DataFrame" where
  "coerce_numeric R df = foldr (apply_to_column (to_numeric R)) (numeric_columns R) df"

text \<open>
  Modelled from the spec: \<^emph>\<open>handle missing values\<close>, by dropping the rows that have one or by filling them.
\<close>

definition handle_missing :: "missing_strategy \<Rightarrow> DataFrame \<Rightarrow> DataFrame" where
  "handle_missing s df =
     (case s of
        Drop_rows \<Rightarrow> df\<lparr>rows := filter (\<lambda>row. NaN \<notin> set row) (rows df)\<rparr>
      | Fill_with r \<Rightarrow> df\<lparr>rows := map (map (\<lambda>v. if v = NaN then Num r else v)) (rows df)\<rparr>)"

text \<open>
  Modelled from the spec: \<^verbatim>\<open>clean_dataset\<close>, which main.py imports from \<^verbatim>\<open>utils\<close> and
  \<^verbatim>\<open>app/utils.py\<close> does not define. Section 4.2: the three steps, missing values
  last, and the result persisted at the output path, over any file that was there.
\<close>

definition clean_dataset_spec ::
  "cleaning_rules \<Rightarrow> DataFrame \<Rightarrow> string \<Rightarrow> (string \<rightharpoonup> DataFrame) \<Rightarrow>
     DataFrame \<times> (string \<rightharpoonup> DataFrame)" where
  "clean_dataset_spec R dataset output_path files =
     (let cleaned = handle_missing (strategy R) (coerce_numeric R (normalize_timestamp R dataset))
      in (cleaned, files(output_path \<mapsto> cleaned)))"

text \<open>
  Modelled from the spec: the count of missing values of a column, as \<^verbatim>\<open>isnull().sum()\<close> reports it.
\<close>

definition count_missing :: "DataFrame \<Rightarrow> string \<Rightarrow> nat" where
  "count_missing df c = length (filter (\<lambda>v. v = NaN) (column_values df c))"

text \<open>
  Modelled from the spec: the missing-value counts of all columns.
\<close>

definition isnull_counts :: "DataFrame \<Rightarrow> (string \<times> nat) list" where
  "isnull_counts df = map (\<lambda>c. (c, count_missing df c)) (columns df)"

section \<open>Concrete inputs\<close>

text \<open>
  A table with the irradiance and wind columns and without \<^verbatim>\<open>Timestamp\<close>, and
  collaborators for which only the first file of \<^verbatim>\<open>DATASETS\<close> exists and the wind
  rose fails.
\<close>

definition sample_table :: DataFrame where
  "sample_table =
     \<lparr>columns = [''GHI'', ''DNI'', ''DHI'', ''WD'', ''WS''],
      rows = [[Num 1, Num 2, Num 3, Num 4, Num 5]]\<rparr>"

definition sample_env :: env where
  "sample_env =
     \<lparr>read_csv = (\<lambda>p. if p = ''data/original_datasets/benin-malanville.csv''
                        then Inr sample_table
                        else Inl (PyExn True ''[Errno 2] No such file or directory'')),
      clean_dataset = (\<lambda>df p. Inr df),
      describe = (\<lambda>df. None),
      isnull_sum = (\<lambda>df. None),
      duplicated_sum = (\<lambda>df. None),
      plot = (\<lambda>h df. if h = Wind_rose then Some (PyExn True ''boom'') else None),
      detect_outliers = (\<lambda>df cols. Inr [])\<rparr>"

text \<open>
  The same collaborators with a detector that fails, and with a box plot that fails.
\<close>

definition failing_detect_env :: env where
  "failing_detect_env = sample_env\<lparr>detect_outliers := (\<lambda>df cols. Inl (PyExn True ''boom''))\<rparr>"

definition failing_boxplot_env :: env where
  "failing_boxplot_env =
     sample_env\<lparr>plot := (\<lambda>h df. if h = Boxplot then Some (PyExn True ''boom'') else None)\<rparr>"

definition sample_zip_env :: zip_env where
  "sample_zip_env =
     \<lparr>ZipFile = (\<lambda>p. if p = ''data.zip'' then Inr [(''benin-malanville.csv'', ''GHI,DNI'')]
                       else Inl (PyExn True ''[Errno 2] No such file or directory'')),
      extractall = (\<lambda>a dest. if dest = ''/readonly'' then Some (PyExn True ''[Errno 13] Permission denied'') else None)\<rparr>"

text \<open>
  A table with an outlier in one column and a constant second column, and a table
  with a time stamp that does not parse, a missing value and a text in a numeric
  column, with rules that drop the rows with missing values.
\<close>

definition outlier_table :: DataFrame where
  "outlier_table =
     \<lparr>columns = [''GHI'', ''DNI''],
      rows = [[Num 0, Num 7], [Num 0, Num 7], [Num 0, Num 7], [Num 0, Num 7], [Num 5, Num 7]]\<rparr>"

definition dirty_table :: DataFrame where
  "dirty_table =
     \<lparr>columns = [''Timestamp'', ''GHI''],
      rows = [[Str ''2021-08-09 00:01'', Num 1], [Str ''bad'', Num 2],
              [Str ''2021-08-09 00:03'', NaN], [Str ''2021-08-09 00:04'', Str ''x''],
              [Str ''2021-08-09 00:05'', Num 5]]\<rparr>"

definition sample_rules :: cleaning_rules where
  "sample_rules =
     \<lparr>parse_timestamp = (\<lambda>v. if v = Str ''bad'' then NaN else v),
      to_numeric = (\<lambda>v. case v of Str s \<Rightarrow> NaN | _ \<Rightarrow> v),
      numeric_columns = [''GHI''],
      strategy = Drop_rows\<rparr>"

section \<open>Loading\<close>

text \<open>
  C1. For every path, \<^verbatim>\<open>load_data\<close> does not raise when reading the file fails with an
  error, that is an instance of \<^verbatim>\<open>Exception\<close>, as the errors of a missing, unreadable
  or malformed file are: it returns the table of no row and no column, and its one
  effect is the error element that names the path and the error, so its caller goes
  on. When reading succeeds it returns the table read and shows nothing.
\<close>

theorem load_data_never_raises:
  assumes "\<forall>e. read_csv E data_path = Inl e \<longrightarrow> derives_Exception e"
  shows "load_data E data_path =
           (case read_csv E data_path of
              Inr t \<Rightarrow> (Inr t, [])
            | Inl e \<Rightarrow>
                (Inr empty_DataFrame,
                 [St_error (''Failed to load data from '' @ data_path @ '': '' @ str_of e)]))
         \<and> n_rows empty_DataFrame = 0 \<and> n_columns empty_DataFrame = 0"
  using assms
  by (cases "read_csv E data_path")
     (simp_all add: load_data_def try_except_def external_def next_do_def and_then_def
        emit_def result_def empty_DataFrame_def n_rows_def n_columns_def)

theorem load_data_never_raises_witness:
  "load_data sample_env ''data/original_datasets/togo-dapaong_qc.csv'' =
     (Inr empty_DataFrame,
      [St_error ''Failed to load data from data/original_datasets/togo-dapaong_qc.csv: [Errno 2] No such file or directory''])
   \<and> n_rows empty_DataFrame = 0 \<and> n_columns empty_DataFrame = 0"
  using load_data_never_raises [of sample_env "''data/original_datasets/togo-dapaong_qc.csv''"]
  by (simp add: sample_env_def)

text \<open>
  What the handler does not catch: an exception that is not an instance of
  \<^verbatim>\<open>Exception\<close> leaves \<^verbatim>\<open>load_data\<close> as it came.
\<close>

lemma load_data_passes_other:
  "read_csv E data_path = Inl e \<Longrightarrow> \<not> derives_Exception e \<Longrightarrow>
     load_data E data_path = (Inl e, [])"
  by (simp add: load_data_def try_except_def external_def)

section \<open>The path of a cleaned file\<close>

lemma lower_char_not_sep: "(lower_char c = CHR ''/'') = (c = CHR ''/'')"
  by (cases c) (auto simp: lower_char_def char_of_def bit_simps)

lemma lower_char_sep: "lower_char (CHR ''/'') = CHR ''/''"
  by (simp add: lower_char_not_sep)

text \<open>
  C8. For every dataset name, the path handed to the cleaner is a function of the name
  alone: \<^verbatim>\<open>os.path.join\<close> of the output directory and the file name made of the name
  in lower case, each space replaced by an underscore, followed by
  \<^verbatim>\<open>_cleaned.csv\<close>. The join puts the file name after \<^verbatim>\<open>data/cleaned_datasets/\<close>,
  except for a name that starts with a slash, where it keeps the file name alone.
\<close>

theorem cleaned_path_derivation:
  "cleaned_path name =
     (if startswith_sep name
      then replace_char (CHR '' '') (CHR ''_'') (lower name) @ ''_cleaned.csv''
      else CLEANED_FOLDER @ replace_char (CHR '' '') (CHR ''_'') (lower name) @ ''_cleaned.csv'')"
  by (cases name)
     (simp_all add: cleaned_path_def path_join_def startswith_sep_def endswith_sep_def
        CLEANED_FOLDER_def replace_char_def lower_def lower_char_not_sep lower_char_sep)

theorem cleaned_path_derivation_witness:
  "cleaned_path ''Benin Malanville'' = ''data/cleaned_datasets/benin_malanville_cleaned.csv''"
proof -
  have "(if startswith_sep ''Benin Malanville''
         then replace_char (CHR '' '') (CHR ''_'') (lower ''Benin Malanville'') @ ''_cleaned.csv''
         else CLEANED_FOLDER @ replace_char (CHR '' '') (CHR ''_'') (lower ''Benin Malanville'')
              @ ''_cleaned.csv'')
        = ''data/cleaned_datasets/benin_malanville_cleaned.csv''"
    by code_simp
  with cleaned_path_derivation [of "''Benin Malanville''"] show ?thesis
    by (rule trans)
qed

text \<open>The three names of \<^verbatim>\<open>DATASETS\<close> and the paths they are read from.\<close>

lemma cleaned_paths_of_DATASETS:
  "map (\<lambda>(name, path). (path, cleaned_path name)) DATASETS =
     [(''data/original_datasets/benin-malanville.csv'',
       ''data/cleaned_datasets/benin_malanville_cleaned.csv''),
      (''data/original_datasets/sierraleone-bumbuna.csv'',
       ''data/cleaned_datasets/sierra_leone_bumbuna_cleaned.csv''),
      (''data/original_datasets/togo-dapaong_qc.csv'',
       ''data/cleaned_datasets/togo_dapaong_qc_cleaned.csv'')]"
  by code_simp

section \<open>Extraction of the archive\<close>

text \<open>
  C9. For every archive path and destination, \<^verbatim>\<open>extract_datasets\<close> opens the archive,
  calls \<^verbatim>\<open>extractall\<close> on it with the destination (every member, as no list of members
  is passed), prints the line that reports completion and closes the archive. It has
  no handler: an exception of the opening or of the extraction comes out as it was
  raised, and the completion line is not printed then.
\<close>

theorem extract_datasets_propagates:
  "extract_datasets Z input_data_path output_data_path =
     (case ZipFile Z input_data_path of
        Inl e \<Rightarrow> (Inl e, [])
      | Inr archive \<Rightarrow>
          (case extractall Z archive output_data_path of
             Some e \<Rightarrow> (Inl e, [Zip_extractall archive output_data_path, Zip_close])
           | None \<Rightarrow>
               (Inr (),
                [Zip_extractall archive output_data_path,
                 Print (''Extracted '' @ input_data_path @ '' to '' @ output_data_path),
                 Zip_close])))"
  by (simp add: extract_datasets_def and_then_def external_def with_close_def next_do_def
      emit_def raising_def split: sum.splits option.splits)

theorem extract_datasets_propagates_witness:
  "extract_datasets sample_zip_env ''data.zip'' ''data'' =
     (Inr (),
      [Zip_extractall [(''benin-malanville.csv'', ''GHI,DNI'')] ''data'',
       Print ''Extracted data.zip to data'', Zip_close])
   \<and> extract_datasets sample_zip_env ''data.zip'' ''/readonly'' =
     (Inl (PyExn True ''[Errno 13] Permission denied''),
      [Zip_extractall [(''benin-malanville.csv'', ''GHI,DNI'')] ''/readonly'', Zip_close])
   \<and> extract_datasets sample_zip_env ''none.zip'' ''data'' =
     (Inl (PyExn True ''[Errno 2] No such file or directory''), [])"
  using extract_datasets_propagates [of sample_zip_env "''data.zip''" "''data''"]
    extract_datasets_propagates [of sample_zip_env "''data.zip''" "''/readonly''"]
    extract_datasets_propagates [of sample_zip_env "''none.zip''" "''data''"]
  by (simp add: sample_zip_env_def)

section \<open>The chart tabs\<close>

subsection \<open>Sequencing\<close>

text \<open>
  The result and the events of two pieces run one after the other, and the block
  \<^verbatim>\<open>try: plot(...)  except Exception as e: st.error(...)\<close> with each outcome of the
  helper written out.
\<close>

lemma fst_next_do: "fst (next_do m k) = (case fst m of Inl e \<Rightarrow> Inl e | Inr u \<Rightarrow> fst k)"
  by (cases m) (auto simp: next_do_def and_then_def split: sum.splits prod.splits)

lemma snd_next_do: "snd (next_do m k) = snd m @ (case fst m of Inl e \<Rightarrow> [] | Inr u \<Rightarrow> snd k)"
  by (cases m) (auto simp: next_do_def and_then_def split: sum.splits prod.splits)

lemma next_do_done: "next_do (Inr (), out) (r, out') = (r, out @ out')"
  by (simp add: next_do_def and_then_def)

lemma next_do_emit: "next_do (emit ev) k = (fst k, ev # snd k)"
  by (simp add: next_do_def and_then_def emit_def split: prod.splits)

lemma in_next_do: "ev \<in> set (snd (next_do m k)) \<Longrightarrow> ev \<in> set (snd m) \<or> ev \<in> set (snd k)"
  by (auto simp: snd_next_do split: sum.splits)

lemma plot_block:
  "try_except (call_plot E h df) (\<lambda>e. emit (St_error (p @ str_of e))) =
     (case plot E h df of
        None \<Rightarrow> (Inr (), [Called h df])
      | Some e \<Rightarrow> if derives_Exception e then (Inr (), [Called h df, St_error (p @ str_of e)])
                  else (Inl e, [Called h df]))"
  by (simp add: try_except_def call_plot_def next_do_def and_then_def emit_def raising_def
      split: option.splits)

lemma detect_block:
  "try_except
     (and_then (getitem_columns df outlier_columns) (\<lambda>valid_data.
        and_then (call_detect_outliers E valid_data outlier_columns) (\<lambda>outliers.
          next_do (emit (St_write (w outliers))) (call_plot E Boxplot valid_data))))
     (\<lambda>e. emit (St_error (p @ str_of e))) =
   (if has_all_columns df outlier_columns then
      (case detect_outliers E (select_columns df outlier_columns) outlier_columns of
         Inl e \<Rightarrow>
           if derives_Exception e
           then (Inr (), [Called Detect_outliers (select_columns df outlier_columns),
                          St_error (p @ str_of e)])
           else (Inl e, [Called Detect_outliers (select_columns df outlier_columns)])
       | Inr outliers \<Rightarrow>
           (case plot E Boxplot (select_columns df outlier_columns) of
              None \<Rightarrow>
                (Inr (), [Called Detect_outliers (select_columns df outlier_columns),
                          St_write (w outliers),
                          Called Boxplot (select_columns df outlier_columns)])
            | Some e \<Rightarrow>
                if derives_Exception e
                then (Inr (), [Called Detect_outliers (select_columns df outlier_columns),
                               St_write (w outliers),
                               Called Boxplot (select_columns df outlier_columns),
                               St_error (p @ str_of e)])
                else (Inl e, [Called Detect_outliers (select_columns df outlier_columns),
                              St_write (w outliers),
                              Called Boxplot (select_columns df outlier_columns)])))
    else (Inr (), [St_error (p @ ''None of '' @ concat outlier_columns @ '' are in the columns'')]))"
  by (simp add: try_except_def and_then_def getitem_columns_def result_def
      call_detect_outliers_def call_plot_def next_do_def emit_def external_def raising_def
      split: sum.splits option.splits)

subsection \<open>The tabs when every exception raised is an error\<close>

text \<open>
  When a helper raises only instances of \<^verbatim>\<open>Exception\<close>, its section ends normally
  and its events are those of \<open>plot_section_events\<close> (of \<open>outlier_section_events\<close>
  for the outlier block), so the events of the two tabs are the sections' events one
  after the other.
\<close>

lemma plot_block_caught:
  assumes "\<forall>e. plot E h df = Some e \<longrightarrow> derives_Exception e"
  shows "try_except (call_plot E h df) (\<lambda>e. emit (St_error (p @ str_of e))) =
     (Inr (), Called h df # error_shown p (plot E h df))"
  using assms by (simp add: plot_block error_shown_def split: option.splits)

lemma guarded_plot_caught:
  assumes "\<forall>e. plot E h df = Some e \<longrightarrow> derives_Exception e"
  shows "when_do c (next_do (emit (St_subheader t))
           (try_except (call_plot E h df) (\<lambda>e. emit (St_error (p @ str_of e))))) =
     (Inr (), if c then St_subheader t # Called h df # error_shown p (plot E h df) else [])"
  using assms by (simp add: plot_block_caught when_do_def next_do_emit result_def)

lemma time_series_section_caught:
  assumes "\<forall>e. plot E Time_series df = Some e \<longrightarrow> derives_Exception e"
  shows "time_series_section E df = (Inr (), plot_section_events E Time_series ''Time Series Trends'' df)"
  unfolding time_series_section_def guarded_plot_caught [OF assms] plot_section_events_def 
  by simp

lemma wind_rose_section_caught:
  assumes "\<forall>e. plot E Wind_rose df = Some e \<longrightarrow> derives_Exception e"
  shows "wind_rose_section E df = (Inr (), plot_section_events E Wind_rose ''Wind Rose'' df)"
  unfolding wind_rose_section_def guarded_plot_caught [OF assms] plot_section_events_def 
  by simp

lemma wind_direction_section_caught:
  assumes "\<forall>e. plot E Wind_direction_distribution df = Some e \<longrightarrow> derives_Exception e"
  shows "wind_direction_section E df =
    (Inr (), plot_section_events E Wind_direction_distribution ''Wind Direction Distribution'' df)"
  unfolding wind_direction_section_def guarded_plot_caught [OF assms] plot_section_events_def 
  by simp

lemma correlation_heatmap_section_caught:
  assumes "\<forall>e. plot E Correlation_heatmap df = Some e \<longrightarrow> derives_Exception e"
  shows "correlation_heatmap_section E df =
    (Inr (), plot_section_events E Correlation_heatmap ''Correlation Heatmap'' df)"
  unfolding correlation_heatmap_section_def plot_block_caught [OF assms] plot_section_events_def next_do_emit
  by simp

lemma temperature_humidity_section_caught:
  assumes "\<forall>e. plot E Temperature_vs_humidity df = Some e \<longrightarrow> derives_Exception e"
  shows "temperature_humidity_section E df =
    (Inr (), plot_section_events E Temperature_vs_humidity ''Temperature vs. Relative Humidity'' df)"
  unfolding temperature_humidity_section_def guarded_plot_caught [OF assms] plot_section_events_def 
  by simp

lemma temperature_trends_section_caught:
  assumes "\<forall>e. plot E Temperature_trends df = Some e \<longrightarrow> derives_Exception e"
  shows "temperature_trends_section E df =
    (Inr (), plot_section_events E Temperature_trends ''Temperature Trends Across Modules'' df)"
  unfolding temperature_trends_section_def guarded_plot_caught [OF assms] plot_section_events_def module_columns_def
  by simp

lemma pair_plot_section_caught:
  assumes "\<forall>e. plot E Pair_plot df = Some e \<longrightarrow> derives_Exception e"
  shows "pair_plot_section E df =
    (Inr (), plot_section_events E Pair_plot ''Pair Plot of Key Variables'' df)"
  unfolding pair_plot_section_def guarded_plot_caught [OF assms] plot_section_events_def available_columns_def analysis_columns_def
  by simp

lemma outlier_section_caught:
  assumes b: "\<forall>e. plot E Boxplot (select_columns df outlier_columns) = Some e \<longrightarrow> derives_Exception e"
    and d: "\<forall>e. detect_outliers E (select_columns df outlier_columns) outlier_columns = Inl e
           \<longrightarrow> derives_Exception e"
  shows "outlier_section E df = (Inr (), outlier_section_events E df)"
proof (cases "has_all_columns df outlier_columns")
  case False
  then show ?thesis
    by (simp add: outlier_section_def outlier_section_events_def next_do_emit when_do_def
        result_def outlier_columns_def)
next
  case True
  note c = True
  show ?thesis
  proof (cases "detect_outliers E (select_columns df outlier_columns) outlier_columns")
    case (Inl e)
    with d have "derives_Exception e" by simp
    with Inl c show ?thesis
      unfolding outlier_section_def detect_block
      unfolding outlier_section_events_def next_do_emit when_do_def
      by (simp add: outlier_columns_def)
  next
    case (Inr outliers)
    note r = Inr
    show ?thesis
    proof (cases "plot E Boxplot (select_columns df outlier_columns)")
      case None
      with r c show ?thesis
        unfolding outlier_section_def detect_block
      unfolding outlier_section_events_def next_do_emit when_do_def
        by (simp add: outlier_columns_def error_shown_def)
    next
      case (Some e)
      with b have "derives_Exception e" by simp
      with Some r c show ?thesis
        unfolding outlier_section_def detect_block
      unfolding outlier_section_events_def next_do_emit when_do_def
        by (simp add: outlier_columns_def error_shown_def)
    qed
  qed
qed

lemma Called_in_error_shown: "Called h t \<notin> set (error_shown p r)"
  by (simp add: error_shown_def split: option.splits)

lemma St_error_in_error_shown:
  "(St_error m \<in> set (error_shown p r)) = (\<exists>e. r = Some e \<and> m = p @ str_of e)"
  by (auto simp: error_shown_def split: option.splits)

lemma Called_in_plot_section:
  "(Called h t \<in> set (plot_section_events E h' title df)) = (requirement_met h' df \<and> h = h' \<and> t = df)"
  by (auto simp: plot_section_events_def Called_in_error_shown)

lemma St_error_in_plot_section:
  "(St_error m \<in> set (plot_section_events E h title df)) =
     (requirement_met h df \<and> (\<exists>e. plot E h df = Some e \<and> m = error_prefix h @ str_of e))"
  by (auto simp: plot_section_events_def St_error_in_error_shown)

lemma Called_in_outlier_section:
  "(Called h t \<in> set (outlier_section_events E df)) =
     (requirement_met Detect_outliers df \<and> t = argument Detect_outliers df \<and>
      (h = Detect_outliers \<or>
       h = Boxplot \<and> raised E Detect_outliers (argument Detect_outliers df) = None))"
  by (auto simp: outlier_section_events_def Called_in_error_shown outlier_columns_def
      split: sum.splits)

lemma St_error_in_outlier_section:
  "(St_error m \<in> set (outlier_section_events E df)) =
     (requirement_met Detect_outliers df \<and>
      (\<exists>e. m = error_prefix Detect_outliers @ str_of e \<and>
        (raised E Detect_outliers (argument Detect_outliers df) = Some e \<or>
         raised E Detect_outliers (argument Detect_outliers df) = None \<and>
         plot E Boxplot (argument Boxplot df) = Some e)))"
  by (auto simp: outlier_section_events_def St_error_in_error_shown outlier_columns_def
      split: sum.splits)

lemma tabs_caught:
  assumes "\<forall>h t e. raised E h t = Some e \<longrightarrow> derives_Exception e"
  shows "next_do (tab_visuals E df) (tab_advanced E df) =
    (Inr (),
     St_header ''Data Visualizations'' #
     plot_section_events E Correlation_heatmap ''Correlation Heatmap'' df @
     plot_section_events E Time_series ''Time Series Trends'' df @
     plot_section_events E Wind_rose ''Wind Rose'' df @
     plot_section_events E Wind_direction_distribution ''Wind Direction Distribution'' df @
     St_header ''Advanced Analysis'' #
     outlier_section_events E df @
     plot_section_events E Temperature_vs_humidity ''Temperature vs. Relative Humidity'' df @
     plot_section_events E Temperature_trends ''Temperature Trends Across Modules'' df @
     plot_section_events E Pair_plot ''Pair Plot of Key Variables'' df)"
proof -
  have p: "\<forall>e. plot E h t = Some e \<longrightarrow> derives_Exception e" if "h \<noteq> Detect_outliers" for h t
    using assms [rule_format, of h t] that by (cases h) simp_all
  have d: "\<forall>e. detect_outliers E t outlier_columns = Inl e \<longrightarrow> derives_Exception e" for t
    using assms [rule_format, of Detect_outliers t] by (simp add: outlier_columns_def)
  have v: "tab_visuals E df =
    (Inr (),
     St_header ''Data Visualizations'' #
     plot_section_events E Correlation_heatmap ''Correlation Heatmap'' df @
     plot_section_events E Time_series ''Time Series Trends'' df @
     plot_section_events E Wind_rose ''Wind Rose'' df @
     plot_section_events E Wind_direction_distribution ''Wind Direction Distribution'' df)"
    unfolding tab_visuals_def
    by (simp add: correlation_heatmap_section_caught [OF p] time_series_section_caught [OF p]
        wind_rose_section_caught [OF p] wind_direction_section_caught [OF p]
        next_do_emit next_do_done)
  have a: "tab_advanced E df =
    (Inr (),
     St_header ''Advanced Analysis'' #
     outlier_section_events E df @
     plot_section_events E Temperature_vs_humidity ''Temperature vs. Relative Humidity'' df @
     plot_section_events E Temperature_trends ''Temperature Trends Across Modules'' df @
     plot_section_events E Pair_plot ''Pair Plot of Key Variables'' df)"
    unfolding tab_advanced_def
    by (simp add: outlier_section_caught [OF p d] temperature_humidity_section_caught [OF p]
        temperature_trends_section_caught [OF p] pair_plot_section_caught [OF p]
        next_do_emit next_do_done)
  show ?thesis
    by (simp add: v a next_do_done)
qed

lemmas in_sections =
  Called_in_plot_section Called_in_outlier_section St_error_in_plot_section
  St_error_in_outlier_section

text \<open>
  What the handlers do not catch: an exception of the first helper that is not an
  instance of \<^verbatim>\<open>Exception\<close> ends the tab there, with no error element.
\<close>

lemma tab_visuals_passes_other:
  assumes "plot E Correlation_heatmap df = Some e" and "\<not> derives_Exception e"
  shows "tab_visuals E df =
    (Inl e, [St_header ''Data Visualizations'', St_subheader ''Correlation Heatmap'',
             Called Correlation_heatmap df])"
  unfolding tab_visuals_def correlation_heatmap_section_def plot_block
  using assms by (simp add: next_do_def and_then_def emit_def)

text \<open>
  C4, as amended. Every section of the two chart tabs has a handler of its own.
  Whatever errors (instances of \<^verbatim>\<open>Exception\<close>) the helpers raise on the selected
  table, the two tabs run to their end; a helper is called exactly when the columns of
  its section are there, so no failure in one section keeps another section from
  being tried; and a helper that raises leaves an error element made of the text of
  its section and the error. The box plot has no section of its own: it is drawn
  in the block of \<^verbatim>\<open>detect_outliers\<close>, is called only when \<^verbatim>\<open>detect_outliers\<close>
  has returned, and its failure is shown with the text of that block,
  \<^verbatim>\<open>Error detecting outliers\<close>.
\<close>

theorem chart_failures_isolated:
  assumes "\<forall>h t e. raised E h t = Some e \<longrightarrow> derives_Exception e"
  shows "fst (next_do (tab_visuals E df) (tab_advanced E df)) = Inr () \<and>
    (\<forall>h. (Called h (argument h df) \<in> set (snd (next_do (tab_visuals E df) (tab_advanced E df)))) =
          (requirement_met h df \<and>
           (h = Boxplot \<longrightarrow> raised E Detect_outliers (argument Detect_outliers df) = None))) \<and>
    (\<forall>h e. Called h (argument h df) \<in> set (snd (next_do (tab_visuals E df) (tab_advanced E df))) \<and>
           raised E h (argument h df) = Some e \<longrightarrow>
           St_error (error_prefix h @ str_of e)
             \<in> set (snd (next_do (tab_visuals E df) (tab_advanced E df))))"
proof (intro conjI allI impI)
  show "fst (next_do (tab_visuals E df) (tab_advanced E df)) = Inr ()"
    by (simp add: tabs_caught [OF assms])
next
  fix h
  show "(Called h (argument h df) \<in> set (snd (next_do (tab_visuals E df) (tab_advanced E df)))) =
          (requirement_met h df \<and>
           (h = Boxplot \<longrightarrow> raised E Detect_outliers (argument Detect_outliers df) = None))"
    unfolding tabs_caught [OF assms]
    by (cases h) (simp_all add: in_sections del: requirement_met.simps raised.simps argument.simps, auto)
next
  fix h e
  assume "Called h (argument h df) \<in> set (snd (next_do (tab_visuals E df) (tab_advanced E df))) \<and>
           raised E h (argument h df) = Some e"
  then show "St_error (error_prefix h @ str_of e)
             \<in> set (snd (next_do (tab_visuals E df) (tab_advanced E df)))"
    unfolding tabs_caught [OF assms]
    by (cases h) (simp_all add: in_sections del: requirement_met.simps raised.simps, auto)
qed

theorem chart_failures_isolated_witness:
  "fst (next_do (tab_visuals sample_env sample_table) (tab_advanced sample_env sample_table)) = Inr ()
   \<and> Called Wind_rose sample_table
       \<in> set (snd (next_do (tab_visuals sample_env sample_table) (tab_advanced sample_env sample_table)))
   \<and> St_error ''Error plotting wind rose: boom''
       \<in> set (snd (next_do (tab_visuals sample_env sample_table) (tab_advanced sample_env sample_table)))
   \<and> Called Wind_direction_distribution sample_table
       \<in> set (snd (next_do (tab_visuals sample_env sample_table) (tab_advanced sample_env sample_table)))
   \<and> Called Boxplot (select_columns sample_table [''GHI'', ''DNI'', ''DHI''])
       \<in> set (snd (next_do (tab_visuals sample_env sample_table) (tab_advanced sample_env sample_table)))
   \<and> Called Pair_plot sample_table
       \<in> set (snd (next_do (tab_visuals sample_env sample_table) (tab_advanced sample_env sample_table)))"
proof -
  have hyp: "\<forall>h t e. raised sample_env h t = Some e \<longrightarrow> derives_Exception e"
  proof (intro allI impI)
    fix h t e
    assume "raised sample_env h t = Some e"
    then show "derives_Exception e"
      by (cases h) (auto simp: sample_env_def split: if_splits)
  qed
  note th = chart_failures_isolated [OF hyp, of sample_table]
  note called = th [THEN conjunct2, THEN conjunct1, rule_format]
  note shown = th [THEN conjunct2, THEN conjunct2, rule_format]
  have c1: "Called Wind_rose sample_table
       \<in> set (snd (next_do (tab_visuals sample_env sample_table) (tab_advanced sample_env sample_table)))"
    using called [of Wind_rose] by (simp add: sample_table_def)
  have c2: "Called Wind_direction_distribution sample_table
       \<in> set (snd (next_do (tab_visuals sample_env sample_table) (tab_advanced sample_env sample_table)))"
    using called [of Wind_direction_distribution] by (simp add: sample_table_def has_column_def)
  have c3: "Called Boxplot (select_columns sample_table [''GHI'', ''DNI'', ''DHI''])
       \<in> set (snd (next_do (tab_visuals sample_env sample_table) (tab_advanced sample_env sample_table)))"
    using called [of Boxplot]
    by (simp add: sample_table_def sample_env_def has_column_def has_all_columns_def)
  have c4: "Called Pair_plot sample_table
       \<in> set (snd (next_do (tab_visuals sample_env sample_table) (tab_advanced sample_env sample_table)))"
    using called [of Pair_plot] by (simp add: sample_table_def has_column_def)
  have e1: "St_error ''Error plotting wind rose: boom''
       \<in> set (snd (next_do (tab_visuals sample_env sample_table) (tab_advanced sample_env sample_table)))"
    using shown [of Wind_rose "PyExn True ''boom''"] c1 by (simp add: sample_env_def)
  from th [THEN conjunct1] c1 e1 c2 c3 c4 show ?thesis by blast
qed

text \<open>
  C4 as it was stated fails for the box plot (main.py, lines 118 to 127). On a table
  that has the three irradiance columns, a detector that raises keeps the box plot
  from being called; and a box plot that raises leaves the same error element as a
  detector that raises, which does not name the chart.
\<close>

theorem box_plot_shares_handler:
  "requirement_met Boxplot sample_table
   \<and> Called Boxplot (argument Boxplot sample_table)
       \<notin> set (snd (next_do (tab_visuals failing_detect_env sample_table)
                           (tab_advanced failing_detect_env sample_table)))
   \<and> snd (outlier_section failing_detect_env sample_table) =
       [St_subheader ''Outlier Detection'',
        Called Detect_outliers (select_columns sample_table [''GHI'', ''DNI'', ''DHI'']),
        St_error ''Error detecting outliers: boom'']
   \<and> snd (outlier_section failing_boxplot_env sample_table) =
       [St_subheader ''Outlier Detection'',
        Called Detect_outliers (select_columns sample_table [''GHI'', ''DNI'', ''DHI'']),
        St_write ''Number of outliers detected: 0'',
        Called Boxplot (select_columns sample_table [''GHI'', ''DNI'', ''DHI'']),
        St_error ''Error detecting outliers: boom'']"
  by code_simp

subsection \<open>The events of a section, whatever is raised\<close>

text \<open>
  With no assumption on what is raised, a tab may stop early; every event it has
  emitted by then is still a header, or an event of the section of some helper.
\<close>

lemma in_plot_block:
  "ev \<in> set (snd (try_except (call_plot E h df) (\<lambda>e. emit (St_error (p @ str_of e))))) \<Longrightarrow>
     ev = Called h df \<or> (\<exists>s. ev = St_error (p @ s))"
  by (auto simp: plot_block split: option.splits if_splits)

lemma in_guarded_plot:
  "ev \<in> set (snd (when_do c (next_do (emit (St_subheader t))
           (try_except (call_plot E h df) (\<lambda>e. emit (St_error (p @ str_of e))))))) \<Longrightarrow>
     c \<and> (ev = St_subheader t \<or> ev = Called h df \<or> (\<exists>s. ev = St_error (p @ s)))"
  by (auto simp: when_do_def next_do_emit result_def dest: in_plot_block split: if_splits)

lemma in_time_series_section:
  "ev \<in> set (snd (time_series_section E df)) \<Longrightarrow> of_section Time_series df ev"
  unfolding time_series_section_def by (drule in_guarded_plot) (auto simp: of_section_def)

lemma in_wind_rose_section:
  "ev \<in> set (snd (wind_rose_section E df)) \<Longrightarrow> of_section Wind_rose df ev"
  unfolding wind_rose_section_def by (drule in_guarded_plot) (auto simp: of_section_def)

lemma in_wind_direction_section:
  "ev \<in> set (snd (wind_direction_section E df)) \<Longrightarrow> of_section Wind_direction_distribution df ev"
  unfolding wind_direction_section_def by (drule in_guarded_plot) (auto simp: of_section_def)

lemma in_temperature_humidity_section:
  "ev \<in> set (snd (temperature_humidity_section E df)) \<Longrightarrow> of_section Temperature_vs_humidity df ev"
  unfolding temperature_humidity_section_def by (drule in_guarded_plot) (auto simp: of_section_def)

lemma in_temperature_trends_section:
  "ev \<in> set (snd (temperature_trends_section E df)) \<Longrightarrow> of_section Temperature_trends df ev"
  unfolding temperature_trends_section_def
  by (drule in_guarded_plot) (auto simp: of_section_def module_columns_def)

lemma in_pair_plot_section:
  "ev \<in> set (snd (pair_plot_section E df)) \<Longrightarrow> of_section Pair_plot df ev"
  unfolding pair_plot_section_def
  by (drule in_guarded_plot) (auto simp: of_section_def available_columns_def analysis_columns_def)

lemma in_correlation_heatmap_section:
  "ev \<in> set (snd (correlation_heatmap_section E df)) \<Longrightarrow> of_section Correlation_heatmap df ev"
  unfolding correlation_heatmap_section_def
  apply (drule in_next_do)
  apply (erule disjE)
   apply (simp add: emit_def of_section_def)
  apply (drule in_plot_block)
  apply (auto simp: of_section_def)
  done

lemma in_outlier_section:
  "ev \<in> set (snd (outlier_section E df)) \<Longrightarrow>
     of_section Detect_outliers df ev \<or> of_section Boxplot df ev"
  unfolding outlier_section_def detect_block
  unfolding next_do_emit when_do_def
  by (auto simp: of_section_def result_def outlier_columns_def split: if_splits sum.splits option.splits)

lemma in_tabs:
  assumes "ev \<in> set (snd (next_do (tab_visuals E df) (tab_advanced E df)))"
  shows "(\<exists>t. ev = St_header t) \<or> (\<exists>h. of_section h df ev)"
proof -
  from assms consider "ev \<in> set (snd (tab_visuals E df))" | "ev \<in> set (snd (tab_advanced E df))"
    by (auto dest: in_next_do)
  then show ?thesis
  proof cases
    case 1
    then show ?thesis
      unfolding tab_visuals_def
      by (auto simp: emit_def dest!: in_next_do
          dest: in_correlation_heatmap_section in_time_series_section in_wind_rose_section
            in_wind_direction_section)
  next
    case 2
    then show ?thesis
      unfolding tab_advanced_def
      by (auto simp: emit_def dest!: in_next_do
          dest: in_outlier_section in_temperature_humidity_section in_temperature_trends_section
            in_pair_plot_section)
  qed
qed

lemma same_error_prefix:
  "error_prefix h @ s = error_prefix h' @ s' \<Longrightarrow> requirement_met h' df \<Longrightarrow> requirement_met h df"
  by (cases h; cases h') simp_all

text \<open>
  C5. For every table, a helper whose columns main.py does not find is not called, on
  any table, and no error element with the text of its section is written, whatever
  the other helpers do. The columns asked for are those of \<open>requirement_met\<close>: the
  time series asks for \<^verbatim>\<open>Timestamp\<close>, so that a table without it has no time-series
  call and no time-series error; the pair plot asks for one of its six columns; the
  correlation heat map asks for none and is always tried.
\<close>

theorem absent_columns_skip:
  assumes "\<not> requirement_met h df"
  shows "(\<forall>t. Called h t \<notin> set (snd (next_do (tab_visuals E df) (tab_advanced E df)))) \<and>
         (\<forall>s. St_error (error_prefix h @ s)
                \<notin> set (snd (next_do (tab_visuals E df) (tab_advanced E df))))"
proof (intro conjI allI notI)
  fix t
  assume "Called h t \<in> set (snd (next_do (tab_visuals E df) (tab_advanced E df)))"
  from in_tabs [OF this] assms show False
    by (auto simp: of_section_def)
next
  fix s
  assume "St_error (error_prefix h @ s) \<in> set (snd (next_do (tab_visuals E df) (tab_advanced E df)))"
  from in_tabs [OF this] assms show False
    by (auto simp: of_section_def dest: same_error_prefix)
qed

theorem absent_columns_skip_witness:
  "(\<forall>t. Called Time_series t
        \<notin> set (snd (next_do (tab_visuals sample_env sample_table) (tab_advanced sample_env sample_table))))
   \<and> (\<forall>s. St_error (''Error plotting time series trends: '' @ s)
        \<notin> set (snd (next_do (tab_visuals sample_env sample_table) (tab_advanced sample_env sample_table))))"
  using absent_columns_skip [of Time_series sample_table sample_env]
  by (simp add: sample_table_def has_column_def)

text \<open>
  The sub-header of the outlier block is written before the columns are looked for,
  so it is there also when the block is skipped.
\<close>

lemma outlier_subheader_always:
  "St_subheader ''Outlier Detection'' \<in> set (snd (outlier_section E df))"
  by (simp add: outlier_section_def next_do_emit)

section \<open>Which table the views are given\<close>


lemma fst_and_then:
  "fst (and_then m k) = Inr y \<Longrightarrow> \<exists>x. fst m = Inr x \<and> fst (k x) = Inr y"
  by (cases m) (auto simp: and_then_def split: sum.splits prod.splits)

lemma fst_load_data: "fst (load_data E path) = Inr t \<Longrightarrow> t = loaded E path"
  by (simp add: loaded_def)




lemma loop_uncleaned:
  "fst (load_and_clean_loop E items c u) = Inr (c', u') \<Longrightarrow>
     u' = (\<lambda>n. case map_of (rev items) n of Some path \<Rightarrow> Some (loaded E path) | None \<Rightarrow> u n)"
proof (induction items arbitrary: c u)
  case Nil
  then show ?case by (simp add: result_def)
next
  case (Cons item items)
  obtain name path where i: "item = (name, path)" by (cases item)
  from Cons.prems obtain raw cl where
    r: "fst (load_data E path) = Inr raw"
    and "fst (load_and_clean_loop E items (c(name \<mapsto> cl)) (u(name \<mapsto> raw))) = Inr (c', u')"
    unfolding i load_and_clean_loop.simps
    by (blast dest: fst_and_then)
  from Cons.IH [OF this(2)] fst_load_data [OF r] show ?case
    by (auto simp: i map_of_append fun_eq_iff split: option.splits)
qed

lemma map_of_rev_DATASETS: "map_of (rev DATASETS) name = map_of DATASETS name"
  by (simp add: DATASETS_def)

lemma all_uncleaned_data:
  assumes "fst (load_and_clean_all_datasets E) = Inr (c, u)"
  shows "(case u name of Some df \<Rightarrow> df | None \<Rightarrow> empty_DataFrame) = raw_dataset E name"
  using loop_uncleaned [OF assms [unfolded load_and_clean_all_datasets_def]]
  by (simp add: raw_dataset_def map_of_rev_DATASETS split: option.splits)
























section \<open>The outlier detector of the specification: constant columns\<close>

text \<open>
  A column with one value has that value as its mean and no dispersion, so its score
  is undefined in every row.
\<close>

lemma mean_constant:
  assumes "\<forall>x\<in>set xs. x = v" and "xs \<noteq> []"
  shows "mean xs = v"
proof -
  from assms(1) have "sum_list xs = real (length xs) * v"
    by (induction xs) (auto simp: algebra_simps)
  with assms(2) show ?thesis by (simp add: mean_def)
qed

lemma sum_list_all_zero: "\<forall>x\<in>set xs. f x = (0::real) \<Longrightarrow> sum_list (map f xs) = 0"
  by (induction xs) auto

lemma std_constant:
  assumes "\<forall>x\<in>set xs. x = v"
  shows "std xs = 0"
proof (cases "xs = []")
  case True
  then show ?thesis by (simp add: std_def)
next
  case False
  from mean_constant [OF assms False] assms have "\<forall>x\<in>set xs. (x - mean xs)\<^sup>2 = 0" by simp
  then have "sum_list (map (\<lambda>x. (x - mean xs)\<^sup>2) xs) = 0"
    by (rule sum_list_all_zero)
  then show ?thesis by (simp add: std_def)
qed

lemma constant_columnD: "constant_column df c \<Longrightarrow> \<exists>v. \<forall>x\<in>set (numbers df c). x = v"
  by (auto simp: constant_column_def list_all_iff split: list.splits)

lemma constant_column_flags:
  assumes "constant_column df c"
  shows "list_all Not (column_flags threshold df c)"
proof -
  from constant_columnD [OF assms] obtain v where "\<forall>x\<in>set (numbers df c). x = v" ..
  then have "std (numbers df c) = 0" by (rule std_constant)
  then show ?thesis
    by (simp add: column_flags_def zscore_def exceeds_def list_all_iff)
qed

lemma length_numbers: "is_numeric_column df c \<Longrightarrow> length (numbers df c) = n_rows df"
  by (auto simp: is_numeric_column_def numbers_def map_filter_def column_values_def n_rows_def
      list_all_iff intro!: arg_cong [where f = length] filter_True)

text \<open>
  C2. For every table, every threshold, either rule and every list of numeric columns
  that holds a column with the same value in every row, the detector of the
  specification returns a result (it does not fail), no row exceeds the threshold on
  the constant column, and every row it flags exceeds the threshold on another of the
  columns.
\<close>

theorem constant_column_never_flags:
  assumes "list_all (is_numeric_column df) cols" and "c \<in> set cols" and "constant_column df c"
  shows "\<not> isl (detect_outliers_spec rule threshold df cols) \<and>
         list_all Not (column_flags threshold df c) \<and>
         (\<forall>flagged i. detect_outliers_spec rule threshold df cols = Inr flagged \<and> i \<in> set flagged \<longrightarrow>
            (\<exists>c'\<in>set cols. c' \<noteq> c \<and> column_flags threshold df c' ! i))"
proof (intro conjI allI impI)
  show "\<not> isl (detect_outliers_spec rule threshold df cols)"
    using assms(1) by (simp add: detect_outliers_spec_def)
  show f: "list_all Not (column_flags threshold df c)"
    by (rule constant_column_flags [OF assms(3)])
  fix flagged i
  assume a: "detect_outliers_spec rule threshold df cols = Inr flagged \<and> i \<in> set flagged"
  with assms(1) have i: "i < n_rows df" and r: "row_flagged rule threshold df cols i"
    by (auto simp: detect_outliers_spec_def)
  from assms(1,2) have "is_numeric_column df c" by (simp add: list_all_iff)
  with i have "i < length (column_flags threshold df c)"
    by (simp add: column_flags_def length_numbers)
  with f have n: "\<not> column_flags threshold df c ! i" by (simp add: list_all_length)
  from r n assms(2) show "\<exists>c'\<in>set cols. c' \<noteq> c \<and> column_flags threshold df c' ! i"
    by (cases rule) (auto simp: row_flagged_def list_ex_iff list_all_iff)
qed

lemma numbers_outlier_table:
  "numbers outlier_table ''GHI'' = [0, 0, 0, 0, 5]"
  "numbers outlier_table ''DNI'' = [7, 7, 7, 7, 7]"
  by (simp_all add: numbers_def column_values_def outlier_table_def cell_of_def map_filter_def)

lemma std_GHI: "std [0, 0, 0, 0, 5] = 2" "mean [0, 0, 0, 0, 5] = 1"
proof -
  show m: "mean [0, 0, 0, 0, 5] = 1" by (simp add: mean_def)
  have "sqrt 4 = 2" by (rule real_sqrt_unique) simp_all
  then show "std [0, 0, 0, 0, 5] = 2" by (simp add: std_def m power2_eq_square)
qed

lemma flags_GHI: "column_flags 1 outlier_table ''GHI'' = [False, False, False, False, True]"
  by (simp add: column_flags_def numbers_outlier_table zscore_def std_GHI exceeds_def)

lemma numeric_outlier_table:
  "list_all (is_numeric_column outlier_table) [''GHI'', ''DNI'']"
  by (simp add: is_numeric_column_def column_values_def outlier_table_def cell_of_def)

lemma constant_DNI: "constant_column outlier_table ''DNI''"
  by (simp add: constant_column_def numbers_outlier_table)

theorem constant_column_never_flags_witness:
  "\<not> isl (detect_outliers_spec Any_column 1 outlier_table [''GHI'', ''DNI'']) \<and>
   list_all Not (column_flags 1 outlier_table ''DNI'') \<and>
   detect_outliers_spec Any_column 1 outlier_table [''GHI'', ''DNI''] = Inr [4] \<and>
   column_flags 1 outlier_table ''GHI'' ! 4"
proof -
  note th = constant_column_never_flags [OF numeric_outlier_table _ constant_DNI, of Any_column 1]
  have f: "list_all Not (column_flags 1 outlier_table ''DNI'')"
    using th by simp
  then have d: "column_flags 1 outlier_table ''DNI'' = [False, False, False, False, False]"
    by (simp add: column_flags_def numbers_outlier_table)
  have n: "[0..<n_rows outlier_table] = [0, 1, 2, 3, 4]"
    by (simp add: n_rows_def outlier_table_def upt_rec)
  have "detect_outliers_spec Any_column 1 outlier_table [''GHI'', ''DNI''] = Inr [4]"
    using numeric_outlier_table by (simp add: detect_outliers_spec_def row_flagged_def flags_GHI d n)
  with th f show ?thesis by (simp add: flags_GHI)
qed

section \<open>The cleaner of the specification: missing values\<close>

text \<open>
  The steps keep the columns and the shape of the table; after the last one no row
  holds a missing cell, and a cell looked up by a column name is a cell of its row.
\<close>

lemma columns_apply_to_column [simp]: "columns (apply_to_column f c df) = columns df"
  by (simp add: apply_to_column_def)

lemma well_formed_apply_to_column: "well_formed df \<Longrightarrow> well_formed (apply_to_column f c df)"
  by (simp add: well_formed_def apply_to_column_def list_all_iff)

lemma columns_foldr_apply: "columns (foldr (apply_to_column f) cs df) = columns df"
  by (induction cs) simp_all

lemma columns_coerce_numeric [simp]: "columns (coerce_numeric R df) = columns df"
  by (simp add: coerce_numeric_def columns_foldr_apply)

lemma well_formed_foldr_apply:
  "well_formed df \<Longrightarrow> well_formed (foldr (apply_to_column f) cs df)"
  by (induction cs) (simp_all add: well_formed_apply_to_column)

lemma columns_normalize_timestamp [simp]: "columns (normalize_timestamp R df) = columns df"
  by (simp add: normalize_timestamp_def)

lemma columns_handle_missing [simp]: "columns (handle_missing s df) = columns df"
  by (simp add: handle_missing_def split: missing_strategy.splits)

lemma well_formed_prepared:
  "well_formed df \<Longrightarrow> well_formed (coerce_numeric R (normalize_timestamp R df))"
  by (simp add: coerce_numeric_def normalize_timestamp_def well_formed_foldr_apply
      well_formed_apply_to_column)

lemma rows_handle_missing:
  "well_formed df \<Longrightarrow> row \<in> set (rows (handle_missing s df)) \<Longrightarrow>
     length row = length (columns df) \<and> NaN \<notin> set row"
  by (cases s) (auto simp: handle_missing_def well_formed_def list_all_iff)

lemma cell_of_in_row:
  assumes "c \<in> set cols" and "length row = length cols"
  shows "cell_of cols row c \<in> set row"
proof -
  from assms(2) have "map fst (zip cols row) = cols" by simp
  then have "fst ` set (zip cols row) = set cols" by (metis set_map)
  with assms(1) have "c \<in> fst ` set (zip cols row)" by simp
  then obtain v where "map_of (zip cols row) c = Some v"
    by (metis domD dom_map_of_conv_image_fst)
  then show ?thesis
    by (auto simp: cell_of_def dest: map_of_SomeD set_zip_rightD)
qed

lemma handle_missing_no_missing:
  assumes "well_formed df" and "c \<in> set (columns df)"
  shows "count_missing (handle_missing s df) c = 0"
proof -
  have "cell_of (columns df) row c \<noteq> NaN" if "row \<in> set (rows (handle_missing s df))" for row
    using rows_handle_missing [OF assms(1) that] cell_of_in_row [OF assms(2), of row] by auto
  then show ?thesis
    by (auto simp: count_missing_def column_values_def filter_empty_conv)
qed

lemma clean_no_missing:
  assumes "well_formed df" and "c \<in> set (columns df)"
  shows "count_missing (fst (clean_dataset_spec R df output_path files)) c = 0"
  using handle_missing_no_missing [OF well_formed_prepared [OF assms(1)], of c R "strategy R"] assms(2)
  by (simp add: clean_dataset_spec_def Let_def)

lemma columns_clean [simp]: "columns (fst (clean_dataset_spec R df output_path files)) = columns df"
  by (simp add: clean_dataset_spec_def Let_def)

lemma well_formed_handle_missing: "well_formed df \<Longrightarrow> well_formed (handle_missing s df)"
  by (cases s) (auto simp: handle_missing_def well_formed_def list_all_iff)

lemma well_formed_clean:
  "well_formed df \<Longrightarrow> well_formed (fst (clean_dataset_spec R df output_path files))"
  by (simp add: clean_dataset_spec_def Let_def well_formed_handle_missing well_formed_prepared)

text \<open>
  C3. For every rectangular table and every choice of the rules, the table the
  cleaner of the specification returns has no missing value in any column: each of
  the counts that \<^verbatim>\<open>isnull().sum()\<close> would report on it is 0. Its columns are those
  of the input, and it is the table stored at the output path.
\<close>

theorem cleaned_has_no_missing:
  assumes "well_formed df"
  shows "list_all (\<lambda>(c, n). n = 0) (isnull_counts (fst (clean_dataset_spec R df output_path files)))
         \<and> columns (fst (clean_dataset_spec R df output_path files)) = columns df
         \<and> snd (clean_dataset_spec R df output_path files) output_path
             = Some (fst (clean_dataset_spec R df output_path files))"
  using assms
  by (auto simp: isnull_counts_def list_all_iff clean_no_missing)
     (simp add: clean_dataset_spec_def Let_def)

text \<open>
  C7. For every rectangular table and every choice of the rules, cleaning the cleaned
  table again leaves the missing-value count of every column as it was.
\<close>

theorem clean_idempotent_counts:
  assumes "well_formed df"
  shows "isnull_counts
           (fst (clean_dataset_spec R (fst (clean_dataset_spec R df output_path files)) output_path
                  (snd (clean_dataset_spec R df output_path files))))
         = isnull_counts (fst (clean_dataset_spec R df output_path files))"
  using assms
  by (simp add: isnull_counts_def clean_no_missing well_formed_clean)

lemma clean_dirty_table:
  "fst (clean_dataset_spec sample_rules dirty_table ''out.csv'' Map.empty) =
     \<lparr>columns = [''Timestamp'', ''GHI''],
      rows = [[Str ''2021-08-09 00:01'', Num 1], [Str ''2021-08-09 00:05'', Num 5]]\<rparr>"
  by (simp add: clean_dataset_spec_def sample_rules_def dirty_table_def handle_missing_def
      coerce_numeric_def normalize_timestamp_def apply_to_column_def has_column_def Let_def)

lemma well_formed_dirty_table: "well_formed dirty_table"
  by (simp add: well_formed_def dirty_table_def)

theorem cleaned_has_no_missing_witness:
  "list_all (\<lambda>(c, n). n = 0)
     (isnull_counts (fst (clean_dataset_spec sample_rules dirty_table ''out.csv'' Map.empty)))
   \<and> isnull_counts dirty_table = [(''Timestamp'', 0), (''GHI'', 1)]
   \<and> rows (fst (clean_dataset_spec sample_rules dirty_table ''out.csv'' Map.empty)) =
       [[Str ''2021-08-09 00:01'', Num 1], [Str ''2021-08-09 00:05'', Num 5]]"
  using cleaned_has_no_missing [OF well_formed_dirty_table, of sample_rules "''out.csv''" Map.empty]
  by (simp add: clean_dirty_table)
     (simp add: isnull_counts_def count_missing_def column_values_def cell_of_def dirty_table_def)

theorem clean_idempotent_counts_witness:
  "isnull_counts
     (fst (clean_dataset_spec sample_rules
             (fst (clean_dataset_spec sample_rules dirty_table ''out.csv'' Map.empty)) ''out.csv''
             (snd (clean_dataset_spec sample_rules dirty_table ''out.csv'' Map.empty))))
   = [(''Timestamp'', 0), (''GHI'', 0)]"
proof -
  have "isnull_counts (fst (clean_dataset_spec sample_rules dirty_table ''out.csv'' Map.empty))
          = [(''Timestamp'', 0), (''GHI'', 0)]"
    by (simp add: clean_dirty_table)
       (simp add: isnull_counts_def count_missing_def column_values_def cell_of_def)
  with clean_idempotent_counts [OF well_formed_dirty_table, of sample_rules "''out.csv''" Map.empty]
  show ?thesis by (rule trans)
qed

end
